theory Spec2Isabelle
  imports Main "HOL-Library.Multiset"
begin

section \<open>Python strings\<close>

text \<open>
  A Python \<open>str\<close> is a sequence of Unicode code points; it is modelled as the list of
  its code points, so that the Korean literals of \<open>app.py\<close> are written by their numbers.
  ASCII literals are written as HOL strings and converted by \<open>ascii\<close>.
\<close>

type_synonym pystr = "nat list"

definition ascii :: "string \<Rightarrow> pystr" where
  "ascii s = map of_char s"

text \<open>\<open>str.isspace\<close> of one code point: the 29 whitespace code points of CPython.\<close>

definition py_isspace :: "nat \<Rightarrow> bool" where
  "py_isspace c \<longleftrightarrow>
     (9 \<le> c \<and> c \<le> 13) \<or> (28 \<le> c \<and> c \<le> 32) \<or> c = 133 \<or> c = 160 \<or> c = 5760 \<or>
     (8192 \<le> c \<and> c \<le> 8202) \<or> c = 8232 \<or> c = 8233 \<or> c = 8239 \<or> c = 8287 \<or> c = 12288"

text \<open>\<open>s.strip()\<close>: drop the whitespace at the left end, then at the right end.\<close>

definition strip :: "pystr \<Rightarrow> pystr" where
  "strip s = rev (dropWhile py_isspace (rev (dropWhile py_isspace s)))"

text \<open>\<open>x or ""\<close> for \<open>x\<close> a string or \<open>None\<close>.\<close>

fun or_empty :: "pystr option \<Rightarrow> pystr" where
  "or_empty None = []"
| "or_empty (Some s) = s"

text \<open>
  What the interpreter brings along and \<open>app.py\<close> does not fix: the Unicode tables
  behind \<open>str.lower\<close> and \<open>int\<close> for text outside ASCII, and the limit
  \<open>sys.int_max_str_digits\<close> on the digits \<open>int\<close> accepts (0 switches it off).
  On ASCII text the model computes; outside it asks these fields.
\<close>

record pyenv =
  unicode_lower :: "pystr \<Rightarrow> pystr"
  unicode_decimal :: "nat \<Rightarrow> nat option"
  int_max_str_digits :: nat

definition is_ascii :: "pystr \<Rightarrow> bool" where
  "is_ascii s = list_all (\<lambda>c. c < 128) s"

definition ascii_lower :: "nat \<Rightarrow> nat" where
  "ascii_lower c = (if 65 \<le> c \<and> c \<le> 90 then c + 32 else c)"

text \<open>\<open>s.lower()\<close>.\<close>

definition str_lower :: "pyenv \<Rightarrow> pystr \<Rightarrow> pystr" where
  "str_lower E s = (if is_ascii s then map ascii_lower s else unicode_lower E s)"

section \<open>Grading: \<open>judge\<close>\<close>

text \<open>The two question types, subjective and multiple choice, as the code points of
  the Korean literals at lines 116 and 253.\<close>

definition subjective :: pystr where
  "subjective = [51452, 44288, 49885]"

definition multiple_choice :: pystr where
  "multiple_choice = [44061, 44288, 49885]"

definition judge :: "pyenv \<Rightarrow> pystr option \<Rightarrow> pystr option \<Rightarrow> pystr \<Rightarrow> bool" where
  "judge E user_answer correct_answer qtype =
     (let ua = strip (or_empty user_answer);
          ca = strip (or_empty correct_answer)
      in if qtype = subjective then str_lower E ua = str_lower E ca else ua = ca)"

section \<open>Result tier: \<open>result_tier\<close>\<close>

definition tier1_message :: pystr where
  "tier1_message = [50724, 46, 46, 32, 50500, 51649, 32, 77, 90, 32, 44048, 49457, 32, 51077,
     47928, 33, 32, 45796, 51020, 50644, 32, 45908, 32, 51096, 54616, 49892, 32, 49688, 32,
     51080, 50612, 50836, 32, 128521]"

definition tier2_message :: pystr where
  "tier2_message = [51339, 50500, 50836, 33, 32, 44048, 51060, 32, 50724, 44592, 32, 49884,
     51089, 54664, 50612, 50836, 32, 128526]"

definition tier3_message :: pystr where
  "tier3_message = [50864, 50752, 33, 32, 44900, 45208, 32, 77, 90, 32, 53944, 47116, 46356,
     54616, 49888, 45936, 50836, 63, 32, 128293]"

definition tier4_message :: pystr where
  "tier4_message = [50756, 48317, 33, 32, 45817, 49888, 51008, 32, 44144, 51032, 32, 77, 90,
     32, 44536, 32, 51088, 52404, 32, 128588]"

definition result_tier :: "int \<Rightarrow> pystr \<times> pystr" where
  "result_tier score =
     (if score \<le> 5 then (ascii ''result1.png'', tier1_message)
      else if 6 \<le> score \<and> score \<le> 10 then (ascii ''result2.png'', tier2_message)
      else if 11 \<le> score \<and> score \<le> 15 then (ascii ''result3.png'', tier3_message)
      else (ascii ''result4.png'', tier4_message))"

section \<open>Integer parsing: \<open>int\<close> and \<open>safe_int\<close>\<close>

datatype py_error = ValueError | TypeError | CsvError | OSError | UnicodeDecodeError

definition is_digit :: "nat \<Rightarrow> bool" where
  "is_digit c \<longleftrightarrow> 48 \<le> c \<and> c \<le> 57"

text \<open>The C-level \<open>Py_ISSPACE\<close>, which \<open>int\<close> skips around the number.\<close>

definition c_isspace :: "nat \<Rightarrow> bool" where
  "c_isspace c \<longleftrightarrow> (9 \<le> c \<and> c \<le> 13) \<or> c = 32"

text \<open>
  \<open>int(x)\<close> first rewrites the string to ASCII: a code point below 127 stays, Unicode
  whitespace becomes a space, a Unicode decimal digit becomes its ASCII digit, and at
  anything else the text is cut with a question mark.
\<close>

fun to_ascii_decimal :: "pyenv \<Rightarrow> pystr \<Rightarrow> pystr" where
  "to_ascii_decimal E [] = []"
| "to_ascii_decimal E (c # cs) =
     (if c < 127 then c # to_ascii_decimal E cs
      else if py_isspace c then 32 # to_ascii_decimal E cs
      else (case unicode_decimal E c of
              None \<Rightarrow> [63]
            | Some d \<Rightarrow> (48 + d) # to_ascii_decimal E cs))"

text \<open>
  The digit scan of \<open>int\<close> in base 10: digits, with single underscores between them.
  \<open>prev\<close> is the character before, 0 at the start; the result is the digit values read
  and the text left, or \<open>None\<close> at a doubled or trailing underscore.
\<close>

fun scan_digits :: "nat \<Rightarrow> pystr \<Rightarrow> nat list \<Rightarrow> (nat list \<times> pystr) option" where
  "scan_digits prev [] ds = (if prev = 95 then None else Some (ds, []))"
| "scan_digits prev (c # cs) ds =
     (if c = 95 then (if prev = 95 then None else scan_digits c cs ds)
      else if is_digit c then scan_digits c cs (ds @ [c - 48])
      else if prev = 95 then None
      else Some (ds, c # cs))"

definition digits_value :: "nat list \<Rightarrow> int" where
  "digits_value ds = foldl (\<lambda>a d. 10 * a + int d) 0 ds"

text \<open>\<open>int(x)\<close> for a string \<open>x\<close>: \<open>None\<close> stands for the \<open>ValueError\<close>.\<close>

definition py_int :: "pyenv \<Rightarrow> pystr \<Rightarrow> int option" where
  "py_int E x =
     (let s0 = dropWhile c_isspace (to_ascii_decimal E x);
          neg = (s0 \<noteq> [] \<and> hd s0 = 45);
          s1 = (if s0 \<noteq> [] \<and> (hd s0 = 43 \<or> hd s0 = 45) then tl s0 else s0)
      in if s1 \<noteq> [] \<and> hd s1 = 95 then None
         else (case scan_digits 0 s1 [] of
                 None \<Rightarrow> None
               | Some (ds, rest) \<Rightarrow>
                   if ds = [] then None
                   else if 640 < length ds \<and> 0 < int_max_str_digits E
                           \<and> int_max_str_digits E < length ds then None
                   else if dropWhile c_isspace rest \<noteq> [] then None
                   else Some (if neg then - digits_value ds else digits_value ds)))"

text \<open>\<open>safe_int\<close> (lines 90 to 94): any failure of \<open>int\<close> gives \<open>10 ** 9\<close>.\<close>

definition safe_int :: "pyenv \<Rightarrow> pystr \<Rightarrow> int" where
  "safe_int E x = (case py_int E x of Some n \<Rightarrow> n | None \<Rightarrow> 10 ^ 9)"

section \<open>Lines of the file\<close>

text \<open>The line boundaries of \<open>str.splitlines\<close>.\<close>

definition is_linebreak :: "nat \<Rightarrow> bool" where
  "is_linebreak c \<longleftrightarrow>
     (10 \<le> c \<and> c \<le> 13) \<or> (28 \<le> c \<and> c \<le> 30) \<or> c = 133 \<or> c = 8232 \<or> c = 8233"

text \<open>
  \<open>s.splitlines()\<close>: the lines without their boundaries, CR LF counting as one boundary,
  and no empty last line after a final boundary. \<open>cur\<close> is the line read so far.
\<close>

fun splitlines_from :: "pystr \<Rightarrow> pystr \<Rightarrow> pystr list" where
  "splitlines_from cur [] = (if cur = [] then [] else [cur])"
| "splitlines_from cur [c] = (if is_linebreak c then [cur] else [cur @ [c]])"
| "splitlines_from cur (c # d # cs) =
     (if is_linebreak c
      then cur # (if c = 13 \<and> d = 10 then splitlines_from [] cs
                  else splitlines_from [] (d # cs))
      else splitlines_from (cur @ [c]) (d # cs))"

definition splitlines :: "pystr \<Rightarrow> pystr list" where
  "splitlines s = splitlines_from [] s"

text \<open>\<open>"\n".join(lines)\<close>.\<close>

fun join_nl :: "pystr list \<Rightarrow> pystr" where
  "join_nl [] = []"
| "join_nl [l] = l"
| "join_nl (l # m # ls) = l @ 10 # join_nl (m # ls)"

text \<open>Iterating an \<open>io.StringIO\<close>: the lines with their \<open>\n\<close> kept.\<close>

fun stringio_lines_from :: "pystr \<Rightarrow> pystr \<Rightarrow> pystr list" where
  "stringio_lines_from cur [] = (if cur = [] then [] else [cur])"
| "stringio_lines_from cur (c # cs) =
     (if c = 10 then (cur @ [c]) # stringio_lines_from [] cs
      else stringio_lines_from (cur @ [c]) cs)"

definition stringio_lines :: "pystr \<Rightarrow> pystr list" where
  "stringio_lines s = stringio_lines_from [] s"

section \<open>The CSV reader\<close>

text \<open>
  \<open>csv.reader\<close> in the default \<open>excel\<close> dialect, after the state machine of CPython's
  \<open>_csv\<close> module (version 3.11 and later): delimiter comma, quote character \<open>"\<close>,
  doubled quotes, no escape character, not strict. The two escape states cannot be
  entered without an escape character and are left out. A field that would grow beyond
  \<open>csv.field_size_limit()\<close>, 131072 by default, raises \<open>csv.Error\<close>.
\<close>

datatype parse_state =
  START_RECORD | START_FIELD | IN_FIELD | IN_QUOTED_FIELD | QUOTE_IN_QUOTED_FIELD | EAT_CRNL

record reader =
  state :: parse_state
  field :: pystr
  fields' :: "pystr list"

definition field_limit :: nat where
  "field_limit = 131072"

definition parse_reset :: reader where
  "parse_reset = \<lparr>state = START_RECORD, field = [], fields' = []\<rparr>"

definition parse_add_char :: "reader \<Rightarrow> nat \<Rightarrow> py_error + reader" where
  "parse_add_char r c =
     (if field_limit \<le> length (field r) then Inl CsvError
      else Inr (r\<lparr>field := field r @ [c]\<rparr>))"

definition parse_save_field :: "reader \<Rightarrow> reader" where
  "parse_save_field r = r\<lparr>fields' := fields' r @ [field r], field := []\<rparr>"

text \<open>A character of the line is \<open>Some c\<close>; \<open>None\<close> is the end-of-line mark the reader
  feeds itself after each line.\<close>

definition is_eol_or_newline :: "nat option \<Rightarrow> bool" where
  "is_eol_or_newline c \<longleftrightarrow> c = None \<or> c = Some 10 \<or> c = Some 13"

definition after_line_end :: "nat option \<Rightarrow> parse_state" where
  "after_line_end c = (if c = None then START_RECORD else EAT_CRNL)"

definition start_field :: "reader \<Rightarrow> nat option \<Rightarrow> py_error + reader" where
  "start_field r c =
     (if is_eol_or_newline c then Inr ((parse_save_field r)\<lparr>state := after_line_end c\<rparr>)
      else if c = Some 34 then Inr (r\<lparr>state := IN_QUOTED_FIELD\<rparr>)
      else if c = Some 44 then Inr (parse_save_field r)
      else (case parse_add_char r (the c) of
              Inl e \<Rightarrow> Inl e
            | Inr r' \<Rightarrow> Inr (r'\<lparr>state := IN_FIELD\<rparr>)))"

definition parse_process_char :: "reader \<Rightarrow> nat option \<Rightarrow> py_error + reader" where
  "parse_process_char r c =
     (case state r of
        START_RECORD \<Rightarrow>
          if c = None then Inr r
          else if c = Some 10 \<or> c = Some 13 then Inr (r\<lparr>state := EAT_CRNL\<rparr>)
          else start_field (r\<lparr>state := START_FIELD\<rparr>) c
      | START_FIELD \<Rightarrow> start_field r c
      | IN_FIELD \<Rightarrow>
          if is_eol_or_newline c
          then Inr ((parse_save_field r)\<lparr>state := after_line_end c\<rparr>)
          else if c = Some 44 then Inr ((parse_save_field r)\<lparr>state := START_FIELD\<rparr>)
          else parse_add_char r (the c)
      | IN_QUOTED_FIELD \<Rightarrow>
          if c = None then Inr r
          else if c = Some 34 then Inr (r\<lparr>state := QUOTE_IN_QUOTED_FIELD\<rparr>)
          else parse_add_char r (the c)
      | QUOTE_IN_QUOTED_FIELD \<Rightarrow>
          if c = Some 34
          then (case parse_add_char r 34 of
                  Inl e \<Rightarrow> Inl e
                | Inr r' \<Rightarrow> Inr (r'\<lparr>state := IN_QUOTED_FIELD\<rparr>))
          else if c = Some 44 then Inr ((parse_save_field r)\<lparr>state := START_FIELD\<rparr>)
          else if is_eol_or_newline c
          then Inr ((parse_save_field r)\<lparr>state := after_line_end c\<rparr>)
          else (case parse_add_char r (the c) of
                  Inl e \<Rightarrow> Inl e
                | Inr r' \<Rightarrow> Inr (r'\<lparr>state := IN_FIELD\<rparr>))
      | EAT_CRNL \<Rightarrow>
          if c = Some 10 \<or> c = Some 13 then Inr r
          else if c = None then Inr (r\<lparr>state := START_RECORD\<rparr>)
          else Inl CsvError)"

fun process_chars :: "reader \<Rightarrow> pystr \<Rightarrow> py_error + reader" where
  "process_chars r [] = Inr r"
| "process_chars r (c # cs) =
     (case parse_process_char r (Some c) of
        Inl e \<Rightarrow> Inl e
      | Inr r' \<Rightarrow> process_chars r' cs)"

definition process_line :: "reader \<Rightarrow> pystr \<Rightarrow> py_error + reader" where
  "process_line r l =
     (case process_chars r l of
        Inl e \<Rightarrow> Inl e
      | Inr r' \<Rightarrow> parse_process_char r' None)"

text \<open>
  All the records the reader yields on the lines, or its first error. A record is
  complete when a line leaves the reader in \<open>START_RECORD\<close>; the reader then starts
  afresh. When the lines run out inside a record, what was read is the last record.
\<close>

fun reader_rows :: "reader \<Rightarrow> pystr list \<Rightarrow> py_error + pystr list list" where
  "reader_rows r [] =
     (if field r \<noteq> [] \<or> state r = IN_QUOTED_FIELD
      then Inr [fields' (parse_save_field r)] else Inr [])"
| "reader_rows r (l # ls) =
     (case process_line r l of
        Inl e \<Rightarrow> Inl e
      | Inr r' \<Rightarrow>
          if state r' = START_RECORD
          then (case reader_rows parse_reset ls of
                  Inl e \<Rightarrow> Inl e
                | Inr rows \<Rightarrow> Inr (fields' r' # rows))
          else reader_rows r' ls)"

definition csv_reader :: "pystr list \<Rightarrow> py_error + pystr list list" where
  "csv_reader ls = reader_rows parse_reset ls"

section \<open>The question loader: \<open>load_questions\<close>\<close>

text \<open>
  \<open>csv.DictReader\<close>: the first record gives the field names; every later record that
  is not empty becomes a dictionary from field name to cell, a field name without a cell
  getting \<open>None\<close> (inner \<open>None\<close> below; outer \<open>None\<close> is an absent key). Cells beyond
  the field names go under the key \<open>None\<close>, which no lookup of \<open>load_questions\<close> asks
  for, so that entry is left out.
\<close>

definition dict_row :: "pystr list \<Rightarrow> pystr list \<Rightarrow> (pystr \<rightharpoonup> pystr option)" where
  "dict_row fieldnames row =
     (let d = Map.empty(fieldnames [\<mapsto>] map Some row)
      in if length row < length fieldnames
         then d(drop (length row) fieldnames [\<mapsto>]
                  replicate (length fieldnames - length row) None)
         else d)"

record question =
  qid :: pystr
  question :: pystr
  qtype :: pystr
  image :: pystr
  choices :: "pystr list"
  answer :: pystr

text \<open>The inner function \<open>get\<close> (lines 75 to 77), with \<open>field_map\<close> made explicit.\<close>

definition get :: "(pystr \<rightharpoonup> pystr) \<Rightarrow> (pystr \<rightharpoonup> pystr option) \<Rightarrow> pystr \<Rightarrow> pystr" where
  "get field_map row key =
     (let real = (case field_map key of Some orig \<Rightarrow> orig | None \<Rightarrow> key)
      in strip (case row real of
                  None \<Rightarrow> []
                | Some None \<Rightarrow> []
                | Some (Some v) \<Rightarrow> v))"

definition make_item :: "(pystr \<rightharpoonup> pystr) \<Rightarrow> (pystr \<rightharpoonup> pystr option) \<Rightarrow> question" where
  "make_item field_map r =
     \<lparr>qid = get field_map r (ascii ''id''),
      question = get field_map r (ascii ''question''),
      qtype = get field_map r (ascii ''type''),
      image = get field_map r (ascii ''image''),
      choices = [get field_map r (ascii ''choice1''), get field_map r (ascii ''choice2''),
                 get field_map r (ascii ''choice3'')],
      answer = get field_map r (ascii ''answer'')\<rparr>"

text \<open>The lines kept at line 63: those that are not blank.\<close>

definition usable_lines :: "pystr \<Rightarrow> pystr list" where
  "usable_lines text = filter (\<lambda>ln. strip ln \<noteq> []) (splitlines text)"

text \<open>
  Lines 72 and 73: a field name loses the byte-order marks (code point 65279) at its
  left end, and \<open>field_map\<close> takes each cleaned name to the name as read; of two field
  names with the same cleaned name the later one stays.
\<close>

definition clean_name :: "pystr \<Rightarrow> pystr" where
  "clean_name fn = dropWhile (\<lambda>c. c = 65279) fn"

definition field_map_of :: "pystr list \<Rightarrow> (pystr \<rightharpoonup> pystr)" where
  "field_map_of fieldnames = Map.empty(map clean_name fieldnames [\<mapsto>] fieldnames)"

text \<open>
  Lines 68 to 88: the items in the order of the file. Without a first record the field
  names are \<open>None\<close> and \<open>zip\<close> at line 73 raises \<open>TypeError\<close>.
\<close>

definition read_items :: "pystr list \<Rightarrow> py_error + question list" where
  "read_items lines =
     (case csv_reader (stringio_lines (join_nl lines)) of
        Inl e \<Rightarrow> Inl e
      | Inr [] \<Rightarrow> Inl TypeError
      | Inr (fieldnames # rows) \<Rightarrow>
          Inr (map (\<lambda>r. make_item (field_map_of fieldnames) (dict_row fieldnames r))
                 (filter (\<lambda>r. r \<noteq> []) rows)))"

text \<open>
  The file as \<open>load_questions\<close> sees it. It is absent (\<open>os.path.exists\<close> is false); or
  the path exists but \<open>open\<close> or \<open>f.read()\<close> at lines 60 and 61 raises: \<open>OSError\<close> for a
  directory or a file that may not be read, \<open>UnicodeDecodeError\<close> for bytes that are not
  UTF-8; or \<open>f.read()\<close> returns a text, decoded and with the newlines of the file already
  translated to \<open>\n\<close>.
\<close>

datatype source = Absent | Unreadable py_error | Content pystr

text \<open>
  How a call ends: it returns, it halts the script run through \<open>st.stop()\<close> after
  showing a message with \<open>st.error\<close>, or an exception leaves it.
\<close>

datatype 'a outcome = Returned 'a | Halted pystr | Raised py_error

definition csv_not_found :: pystr where
  "csv_not_found = [67, 83, 86, 32, 54028, 51068, 51012, 32, 52286, 51012, 32, 49688, 32,
     50630, 49845, 45768, 45796, 58, 32]"

definition csv_no_data :: pystr where
  "csv_no_data = [67, 83, 86, 50640, 32, 45936, 51060, 53552, 44032, 32, 50630, 49845, 45768,
     45796, 46]"

text \<open>\<open>list.sort\<close> is stable, as \<open>sort_key\<close> is.\<close>

definition load_questions :: "pyenv \<Rightarrow> pystr \<Rightarrow> source \<Rightarrow> question list outcome" where
  "load_questions E csv_path src =
     (case src of
        Absent \<Rightarrow> Halted (csv_not_found @ csv_path)
      | Unreadable e \<Rightarrow> Raised e
      | Content text \<Rightarrow>
          if usable_lines text = [] then Halted csv_no_data
          else (case read_items (usable_lines text) of
                  Inl e \<Rightarrow> Raised e
                | Inr items \<Rightarrow> Returned (sort_key (\<lambda>q. safe_int E (qid q)) items)))"

section \<open>The session: \<open>main\<close>\<close>

text \<open>\<open>st.session_state\<close>, once the three defaults of lines 204 to 209 are in place.\<close>

record session =
  page :: int
  answers :: "pystr \<rightharpoonup> pystr"
  username :: pystr

definition initial_session :: session where
  "initial_session = \<lparr>page = 0, answers = Map.empty, username = []\<rparr>"

text \<open>
  What the widgets return in one run of the script: the name field and the start button
  of the start page; the radio choice (\<open>None\<close> while nothing is selected), the answer
  field and the submit button of a question page; the restart button of the result page.
\<close>

record widgets =
  name_input :: pystr
  start_clicked :: bool
  radio_choice :: "pystr option"
  text_answer :: pystr
  submitted :: bool
  restart_clicked :: bool

text \<open>One row of the result table, lines 289 to 292.\<close>

record result_row =
  number :: int
  asked :: pystr
  mine :: pystr
  correct_answer :: pystr
  mark :: pystr

text \<open>
  What a run shows, as far as the claims speak of it: error and warning messages, and
  the result with its count, tier and table. Titles, images and styling are left out.
\<close>

datatype event =
  ErrorShown pystr
| WarningShown pystr
| ResultShown int "pystr \<times> pystr" "result_row list"

text \<open>How a run of the script ends: at its end or a \<open>return\<close>, with \<open>st.rerun()\<close>,
  with \<open>st.stop()\<close>, or with an exception that nothing catches.\<close>

datatype control = Finished | Rerun | Stopped | Crashed py_error

definition choose_warning :: pystr where
  "choose_warning = [48372, 44592, 47484, 32, 49440, 53469, 54644, 32, 51452, 49464, 50836, 46]"

definition enter_warning :: pystr where
  "enter_warning = [51221, 45813, 51012, 32, 51077, 47141, 54644, 32, 51452, 49464, 50836, 46]"

text \<open>The loop of lines 281 to 292: \<open>int(qid)\<close> at line 290 is not guarded.\<close>

fun grade_all ::
  "pyenv \<Rightarrow> (pystr \<rightharpoonup> pystr) \<Rightarrow> question list \<Rightarrow> int \<Rightarrow> result_row list \<Rightarrow>
     py_error + int \<times> result_row list" where
  "grade_all E ans [] correct rows = Inr (correct, rows)"
| "grade_all E ans (q # qs) correct rows =
     (let my = (case ans (qid q) of Some a \<Rightarrow> a | None \<Rightarrow> []);
          ok = judge E (Some my) (Some (answer q)) (qtype q);
          correct' = (if ok then correct + 1 else correct)
      in case py_int E (qid q) of
           None \<Rightarrow> Inl ValueError
         | Some n \<Rightarrow>
             grade_all E ans qs correct'
               (rows @ [\<lparr>number = n, asked = question q, mine = my,
                          correct_answer = answer q,
                          mark = (if ok then ascii ''O'' else ascii ''X'')\<rparr>]))"

text \<open>The start page, lines 212 to 219.\<close>

definition start_page :: "session \<Rightarrow> widgets \<Rightarrow> control \<times> session \<times> event list" where
  "start_page ss w =
     (let ss1 = ss\<lparr>username := name_input w\<rparr>
      in if start_clicked w then (Rerun, ss1\<lparr>page := 1\<rparr>, []) else (Finished, ss1, []))"

text \<open>A question page, lines 222 to 277, for the question \<open>q\<close> of the page.\<close>

definition question_page :: "question \<Rightarrow> session \<Rightarrow> widgets \<Rightarrow> control \<times> session \<times> event list" where
  "question_page q ss w =
     (let answer_given =
            (if strip (qtype q) = multiple_choice then radio_choice w
             else Some (text_answer w))
      in if submitted w
         then if strip (qtype q) = multiple_choice
                 \<and> (answer_given = None \<or> answer_given = Some [])
              then (Stopped, ss, [WarningShown choose_warning])
              else if strip (qtype q) = subjective \<and> strip (or_empty answer_given) = []
              then (Stopped, ss, [WarningShown enter_warning])
              else (Rerun,
                    ss\<lparr>answers := (answers ss)(qid q \<mapsto> strip (or_empty answer_given)),
                       page := page ss + 1\<rparr>, [])
         else (Finished, ss, []))"

text \<open>The result page, lines 280 to 309.\<close>

definition result_page ::
  "pyenv \<Rightarrow> question list \<Rightarrow> session \<Rightarrow> widgets \<Rightarrow> control \<times> session \<times> event list" where
  "result_page E questions ss w =
     (case grade_all E (answers ss) questions 0 [] of
        Inl e \<Rightarrow> (Crashed e, ss, [])
      | Inr (correct, rows) \<Rightarrow>
          if restart_clicked w
          then (Rerun, ss\<lparr>page := 0, answers := Map.empty\<rparr>,
                [ResultShown correct (result_tier correct) rows])
          else (Finished, ss, [ResultShown correct (result_tier correct) rows]))"

text \<open>One run of \<open>main\<close> on the file \<open>src\<close> at \<open>csv_path\<close>, from the session \<open>ss\<close>.\<close>

definition main ::
  "pyenv \<Rightarrow> pystr \<Rightarrow> source \<Rightarrow> session \<Rightarrow> widgets \<Rightarrow> control \<times> session \<times> event list" where
  "main E csv_path src ss w =
     (case load_questions E csv_path src of
        Halted m \<Rightarrow> (Stopped, ss, [ErrorShown m])
      | Raised e \<Rightarrow> (Crashed e, ss, [])
      | Returned questions \<Rightarrow>
          (let total = int (length questions)
           in if page ss = 0 then start_page ss w
              else if 1 \<le> page ss \<and> page ss \<le> total
              then question_page (questions ! nat (page ss - 1)) ss w
              else if page ss > total then result_page E questions ss w
              else (Finished, ss, [])))"

text \<open>
  An environment for evaluating the model on ASCII inputs, where the Unicode tables are
  never consulted; the digit limit is CPython's default.
\<close>

definition ascii_env :: pyenv where
  "ascii_env = \<lparr>unicode_lower = (\<lambda>s. s), unicode_decimal = (\<lambda>c. None), int_max_str_digits = 4300\<rparr>"

section \<open>A sample file\<close>

text \<open>
  A small question file with two rows, out of order and without the \<open>question\<close>,
  \<open>image\<close> and \<open>choice3\<close> columns, the two questions it loads to, and a run of the
  script in which no widget is touched.
\<close>

definition sample_csv :: pystr where
  "sample_csv = ascii ''id,type,choice1,choice2,answer'' @ [10]
     @ ascii ''2,'' @ multiple_choice @ ascii '',a,b,b'' @ [10]
     @ ascii ''1,'' @ subjective @ ascii '',,,Yolo''"

definition sample_q1 :: question where
  "sample_q1 = \<lparr>qid = ascii ''1'', question = [], qtype = subjective, image = [],
     choices = [[], [], []], answer = ascii ''Yolo''\<rparr>"

definition sample_q2 :: question where
  "sample_q2 = \<lparr>qid = ascii ''2'', question = [], qtype = multiple_choice, image = [],
     choices = [ascii ''a'', ascii ''b'', []], answer = ascii ''b''\<rparr>"

definition no_input :: widgets where
  "no_input = \<lparr>name_input = [], start_clicked = False, radio_choice = None,
     text_answer = [], submitted = False, restart_clicked = False\<rparr>"

text \<open>The tests of lines 262 and 266 to 269 that turn a submission down, and the
  value of \<open>answer\<close> at line 274 (\<open>answer or ""\<close>).\<close>

definition rejected :: "question \<Rightarrow> widgets \<Rightarrow> bool" where
  "rejected q w \<longleftrightarrow>
     (strip (qtype q) = multiple_choice \<and> (radio_choice w = None \<or> radio_choice w = Some []))
     \<or> (strip (qtype q) = subjective \<and> strip (text_answer w) = [])"

definition submitted_value :: "question \<Rightarrow> widgets \<Rightarrow> pystr" where
  "submitted_value q w =
     (if strip (qtype q) = multiple_choice then or_empty (radio_choice w) else text_answer w)"

section \<open>A file with an id that is no number\<close>

text \<open>
  Two rows: the id \<open>x\<close>, which \<open>int\<close> rejects, and then the id 2000000000, which is
  an integer above \<open>10 ** 9\<close>; and the two questions they load to.
\<close>

definition bigid_csv :: pystr where
  "bigid_csv = ascii ''id,answer'' @ [10] @ ascii ''x,a'' @ [10] @ ascii ''2000000000,b''"

definition bigid_x :: question where
  "bigid_x = \<lparr>qid = ascii ''x'', question = [], qtype = [], image = [],
     choices = [[], [], []], answer = ascii ''a''\<rparr>"

definition bigid_big :: question where
  "bigid_big = \<lparr>qid = ascii ''2000000000'', question = [], qtype = [], image = [],
     choices = [[], [], []], answer = ascii ''b''\<rparr>"

text \<open>The session on the result page of that file, after the answers \<open>a\<close> and \<open>b\<close>.\<close>

definition bigid_session :: session where
  "bigid_session = \<lparr>page = 3,
     answers = [ascii ''x'' \<mapsto> ascii ''a'', ascii ''2000000000'' \<mapsto> ascii ''b''],
     username = []\<rparr>"

section \<open>A file with a header and no row\<close>


section \<open>Lines as the reader gets them\<close>


section \<open>A file with one very long field\<close>


section \<open>Facts about strings\<close>



lemma strip_Nil [simp]: "strip [] = []"
  by (simp add: strip_def)




section \<open>Facts about the sample file and the pages\<close>

lemmas reader_eval =
  parse_process_char_def start_field_def parse_add_char_def parse_save_field_def
  is_eol_or_newline_def after_line_end_def field_limit_def parse_reset_def process_line_def
  csv_reader_def

lemma usable_sample: "usable_lines sample_csv =
   [ascii ''id,type,choice1,choice2,answer'', ascii ''2,'' @ multiple_choice @ ascii '',a,b,b'',
    ascii ''1,'' @ subjective @ ascii '',,,Yolo'']"
  by (simp add: usable_lines_def sample_csv_def splitlines_def ascii_def is_linebreak_def
      multiple_choice_def subjective_def strip_def py_isspace_def)

lemma rows_sample: "csv_reader (stringio_lines (join_nl (usable_lines sample_csv))) =
   Inr [[ascii ''id'', ascii ''type'', ascii ''choice1'', ascii ''choice2'', ascii ''answer''],
        [ascii ''2'', multiple_choice, ascii ''a'', ascii ''b'', ascii ''b''],
        [ascii ''1'', subjective, [], [], ascii ''Yolo'']]"
  unfolding usable_sample
  by (simp add: stringio_lines_def ascii_def multiple_choice_def subjective_def reader_eval)

lemma items_sample: "read_items (usable_lines sample_csv) = Inr [sample_q2, sample_q1]"
  unfolding read_items_def rows_sample
  by (simp add: make_item_def get_def dict_row_def field_map_of_def clean_name_def
      sample_q1_def sample_q2_def ascii_def
      multiple_choice_def subjective_def strip_def py_isspace_def map_upds_def)

lemma py_int_1: "py_int E (ascii ''1'') = Some 1"
  by (simp add: py_int_def ascii_def c_isspace_def is_digit_def digits_value_def)

lemma py_int_2: "py_int E (ascii ''2'') = Some 2"
  by (simp add: py_int_def ascii_def c_isspace_def is_digit_def digits_value_def)

lemma load_sample: "load_questions E p (Content sample_csv) = Returned [sample_q1, sample_q2]"
proof -
  have "usable_lines sample_csv \<noteq> []" by (simp add: usable_sample)
  then show ?thesis
    by (simp add: load_questions_def items_sample safe_int_def sample_q1_def sample_q2_def
        py_int_1 py_int_2)
qed

lemma main_question_page:
  assumes "load_questions E csv_path src = Returned questions"
    and "1 \<le> page ss" and "page ss \<le> int (length questions)"
  shows "main E csv_path src ss w = question_page (questions ! nat (page ss - 1)) ss w"
  using assms by (simp add: main_def)

lemma main_result_page:
  assumes "load_questions E csv_path src = Returned questions"
    and "int (length questions) < page ss"
  shows "main E csv_path src ss w = result_page E questions ss w"
proof -
  have "0 < page ss" using assms(2) by linarith
  with assms show ?thesis by (simp add: main_def)
qed

lemma subjective_not_multiple_choice: "subjective \<noteq> multiple_choice"
  by (simp add: subjective_def multiple_choice_def)

lemma question_page_page:
  "question_page q ss w = (c, ss', ev) \<Longrightarrow>
     page ss' = page ss \<or> (page ss' = page ss + 1 \<and> c = Rerun \<and> submitted w)"
  by (auto simp: question_page_def Let_def split: if_splits)

lemma start_page_page:
  "start_page ss w = (c, ss', ev) \<Longrightarrow>
     page ss' = page ss \<or> (page ss' = 1 \<and> c = Rerun \<and> start_clicked w)"
  by (auto simp: start_page_def Let_def split: if_splits)

lemma result_page_page:
  "result_page E qs ss w = (c, ss', ev) \<Longrightarrow>
     page ss' = page ss \<or> (page ss' = 0 \<and> c = Rerun \<and> restart_clicked w)"
  by (auto simp: result_page_def split: sum.splits if_splits prod.splits)

lemma grade_all_Inl:
  "grade_all E ans qs n rows = Inl e \<Longrightarrow> e = ValueError \<and> (\<exists>q \<in> set qs. py_int E (qid q) = None)"
  by (induction qs arbitrary: n rows) (auto simp: Let_def split: option.splits)

lemma grade_all_unparsable:
  "\<exists>q \<in> set qs. py_int E (qid q) = None \<Longrightarrow> grade_all E ans qs n rows = Inl ValueError"
  by (induction qs arbitrary: n rows) (auto simp: Let_def split: option.splits)

lemma judge_sample_q1:
  "judge E (Some (ascii '' yolo'')) (Some (ascii ''Yolo'')) subjective"
  by (simp add: judge_def ascii_def strip_def py_isspace_def str_lower_def is_ascii_def
      ascii_lower_def)

section \<open>Facts about the loader\<close>

lemma safe_int_unparsable: "py_int E x = None \<Longrightarrow> safe_int E x = 10 ^ 9"
  by (simp add: safe_int_def)

lemma sort_key_keeps_unparsable:
  "filter (\<lambda>q. py_int E (qid q) = None) (sort_key (\<lambda>q. safe_int E (qid q)) items)
     = filter (\<lambda>q. py_int E (qid q) = None) items"
proof -
  let ?key = "\<lambda>q. safe_int E (qid q)" and ?bad = "\<lambda>q. py_int E (qid q) = None"
  have split: "filter ?bad xs = filter ?bad (filter (\<lambda>q. ?key q = 10 ^ 9) xs)" for xs
    by (induction xs) (auto simp: safe_int_unparsable)
  have "filter ?bad (sort_key ?key items)
      = filter ?bad (filter (\<lambda>q. ?key q = 10 ^ 9) (sort_key ?key items))"
    by (rule split)
  also have "\<dots> = filter ?bad (filter (\<lambda>q. ?key q = 10 ^ 9) items)"
    by (simp only: sort_key_stable)
  also have "\<dots> = filter ?bad items"
    by (rule split [symmetric])
  finally show ?thesis .
qed

lemma load_questions_Returned:
  assumes "load_questions E csv_path src = Returned out"
  shows "\<exists>text items. src = Content text \<and> usable_lines text \<noteq> []
           \<and> read_items (usable_lines text) = Inr items
           \<and> out = sort_key (\<lambda>q. safe_int E (qid q)) items"
  using assms
  by (cases src) (auto simp: load_questions_def split: if_splits sum.splits)

lemma usable_bigid: "usable_lines bigid_csv =
   [ascii ''id,answer'', ascii ''x,a'', ascii ''2000000000,b'']"
  by (simp add: usable_lines_def bigid_csv_def splitlines_def ascii_def is_linebreak_def
      strip_def py_isspace_def)

lemma items_bigid: "read_items (usable_lines bigid_csv) = Inr [bigid_x, bigid_big]"
  unfolding read_items_def usable_bigid
  by (simp add: stringio_lines_def reader_eval make_item_def get_def dict_row_def
      field_map_of_def clean_name_def bigid_x_def bigid_big_def ascii_def strip_def py_isspace_def map_upds_def)

lemma py_int_x: "py_int E (ascii ''x'') = None"
  by (simp add: py_int_def ascii_def c_isspace_def is_digit_def)

lemma py_int_big: "py_int E (ascii ''2000000000'') = Some 2000000000"
  by (simp add: py_int_def ascii_def c_isspace_def is_digit_def digits_value_def)

lemma load_bigid: "load_questions E p (Content bigid_csv) = Returned [bigid_x, bigid_big]"
proof -
  have "usable_lines bigid_csv \<noteq> []" by (simp add: usable_bigid)
  then show ?thesis
    by (simp add: load_questions_def items_bigid safe_int_def bigid_x_def bigid_big_def
        py_int_x py_int_big)
qed

section \<open>Facts about the rows of the reader\<close>

lemma map_upds_nth:
  "distinct xs \<Longrightarrow> i < length xs \<Longrightarrow> i < length ys \<Longrightarrow> (m(xs [\<mapsto>] ys)) (xs ! i) = Some (ys ! i)"
proof (induction xs arbitrary: ys i m)
  case Nil
  then show ?case by simp
next
  case (Cons x xs)
  then obtain y ys' where ys: "ys = y # ys'" by (cases ys) auto
  show ?case
  proof (cases i)
    case 0
    with Cons.prems ys show ?thesis by (simp add: map_upds_apply_nontin)
  next
    case (Suc k)
    have "((m(x \<mapsto> y))(xs [\<mapsto>] ys')) (xs ! k) = Some (ys' ! k)"
      using Cons.prems ys Suc by (intro Cons.IH) auto
    with ys Suc show ?thesis by simp
  qed
qed

lemma nth_notin_drop:
  "distinct xs \<Longrightarrow> i < n \<Longrightarrow> i < length xs \<Longrightarrow> xs ! i \<notin> set (drop n xs)"
  by (auto simp: in_set_conv_nth distinct_conv_nth)

lemma field_map_of_nth:
  assumes "distinct (map clean_name fieldnames)" and "i < length fieldnames"
  shows "field_map_of fieldnames (clean_name (fieldnames ! i)) = Some (fieldnames ! i)"
  using map_upds_nth [of "map clean_name fieldnames" i fieldnames Map.empty] assms
  by (simp add: field_map_of_def)

lemma dict_row_nth:
  assumes "distinct fieldnames" and "i < length fieldnames"
  shows "dict_row fieldnames row (fieldnames ! i)
           = Some (if i < length row then Some (row ! i) else None)"
proof (cases "i < length row")
  case True
  have "(Map.empty(fieldnames [\<mapsto>] map Some row)) (fieldnames ! i) = Some (Some (row ! i))"
    using map_upds_nth [of fieldnames i "map Some row" Map.empty] assms True by simp
  with True assms show ?thesis
    by (simp add: dict_row_def Let_def map_upds_apply_nontin nth_notin_drop)
next
  case False
  let ?n = "length row" and ?rest = "drop (length row) fieldnames"
  from False assms have lt: "?n < length fieldnames" by simp
  have "fieldnames ! i = ?rest ! (i - ?n)" using False assms by simp
  moreover have "(m(?rest [\<mapsto>] replicate (length fieldnames - ?n) None)) (?rest ! (i - ?n))
       = Some (replicate (length fieldnames - ?n) None ! (i - ?n))" for m :: "pystr \<rightharpoonup> pystr option"
    using assms False by (intro map_upds_nth) auto
  ultimately show ?thesis using False lt assms by (simp add: dict_row_def Let_def)
qed

lemma get_column:
  assumes "distinct (map clean_name fieldnames)" and "i < length fieldnames"
  shows "get (field_map_of fieldnames) (dict_row fieldnames row) (clean_name (fieldnames ! i))
           = (if i < length row then strip (row ! i) else [])"
proof -
  from assms(1) have "distinct fieldnames" by (simp add: distinct_map)
  then show ?thesis
    using assms by (simp add: get_def field_map_of_nth dict_row_nth)
qed

lemma field_map_of_None:
  "key \<notin> set (map clean_name fieldnames) \<Longrightarrow> field_map_of fieldnames key = None"
  by (simp add: field_map_of_def map_upds_apply_nontin)

lemma dict_row_None: "key \<notin> set fieldnames \<Longrightarrow> dict_row fieldnames row key = None"
proof -
  assume a: "key \<notin> set fieldnames"
  then have "key \<notin> set (drop (length row) fieldnames)" by (auto dest: in_set_dropD)
  with a show ?thesis by (simp add: dict_row_def Let_def map_upds_apply_nontin)
qed

lemma get_no_column:
  assumes "key \<notin> set (map clean_name fieldnames)" and "key \<notin> set fieldnames"
  shows "get (field_map_of fieldnames) (dict_row fieldnames row) key = []"
  using assms by (simp add: get_def field_map_of_None dict_row_None del: set_map)

lemma csv_reader_Nil: "csv_reader [] = Inr []"
  by (simp add: csv_reader_def parse_reset_def)

lemma read_items_rows:
  "csv_reader (stringio_lines (join_nl lines)) = Inr (fieldnames # rows) \<Longrightarrow>
   read_items lines = Inr (map (\<lambda>r. make_item (field_map_of fieldnames) (dict_row fieldnames r))
                             (filter (\<lambda>r. r \<noteq> []) rows))"
  by (simp add: read_items_def)

lemma rows_need_lines:
  assumes "csv_reader (stringio_lines (join_nl lines)) = Inr (fieldnames # rows)"
  shows "lines \<noteq> []"
proof
  assume "lines = []"
  with assms show False by (simp add: stringio_lines_def csv_reader_Nil)
qed

section \<open>Facts about the CSV reader\<close>

lemma parse_add_char_Inr:
  "length (field r) < field_limit \<Longrightarrow> parse_add_char r c = Inr (r\<lparr>field := field r @ [c]\<rparr>)"
  by (simp add: parse_add_char_def)

lemma parse_add_char_Inl: "parse_add_char r c = Inl e \<Longrightarrow> e = CsvError"
  by (simp add: parse_add_char_def split: if_splits)















section \<open>Facts about the lines\<close>

















section \<open>Facts about the file with the long field\<close>












section \<open>The claims\<close>



text \<open>
  Claim C2. \<open>result_tier\<close> is defined on every integer score and returns the first tier
  up to 5, the second from 6 to 10, the third from 11 to 15 and the fourth from 16 on; the
  boundary scores 5, 6, 15 and 16 fall as the specification says, and the four messages are
  non-empty and pairwise distinct (as are the four asset names).
\<close>

theorem result_tier_thresholds:
  "(score \<le> 5 \<longrightarrow> result_tier score = (ascii ''result1.png'', tier1_message))
   \<and> (6 \<le> score \<and> score \<le> 10 \<longrightarrow> result_tier score = (ascii ''result2.png'', tier2_message))
   \<and> (11 \<le> score \<and> score \<le> 15 \<longrightarrow> result_tier score = (ascii ''result3.png'', tier3_message))
   \<and> (16 \<le> score \<longrightarrow> result_tier score = (ascii ''result4.png'', tier4_message))
   \<and> result_tier 5 = (ascii ''result1.png'', tier1_message)
   \<and> result_tier 6 = (ascii ''result2.png'', tier2_message)
   \<and> result_tier 15 = (ascii ''result3.png'', tier3_message)
   \<and> result_tier 16 = (ascii ''result4.png'', tier4_message)
   \<and> distinct [tier1_message, tier2_message, tier3_message, tier4_message]
   \<and> [] \<notin> set [tier1_message, tier2_message, tier3_message, tier4_message]
   \<and> distinct [ascii ''result1.png'', ascii ''result2.png'', ascii ''result3.png'', ascii ''result4.png'']"
  by (simp add: result_tier_def tier1_message_def tier2_message_def tier3_message_def
      tier4_message_def ascii_def)

text \<open>Claim C2 at one score inside each range.\<close>

theorem result_tier_thresholds_witness:
  "result_tier 0 = (ascii ''result1.png'', tier1_message)
   \<and> result_tier 8 = (ascii ''result2.png'', tier2_message)
   \<and> result_tier 13 = (ascii ''result3.png'', tier3_message)
   \<and> result_tier 20 = (ascii ''result4.png'', tier4_message)"
  using result_tier_thresholds [of 0] result_tier_thresholds [of 8]
    result_tier_thresholds [of 13] result_tier_thresholds [of 20]
  by simp

text \<open>
  Claim C10. A negative score is not an error: the first test, \<open>score \<le> 5\<close>, takes it,
  and the first tier is returned.
\<close>

theorem result_tier_negative:
  "score < 0 \<Longrightarrow> result_tier score = (ascii ''result1.png'', tier1_message)"
  by (simp add: result_tier_def)

text \<open>Claim C10 at the score \<open>-3\<close>.\<close>

theorem result_tier_negative_witness:
  "(-3::int) < 0 \<and> result_tier (-3) = (ascii ''result1.png'', tier1_message)"
  using result_tier_negative [of "-3"] by simp

text \<open>
  Claim C7. On a question page, a submission without a selected option for a
  multiple-choice question, or with an answer that is blank after trimming for a
  subjective question, shows the warning, stops the run, and leaves the whole session
  state, \<open>page\<close> and \<open>answers\<close> included, as it was.
\<close>

theorem invalid_submission_changes_nothing:
  assumes "load_questions E csv_path src = Returned questions"
    and "1 \<le> page ss" and "page ss \<le> int (length questions)"
    and "submitted w"
  shows "(strip (qtype (questions ! nat (page ss - 1))) = multiple_choice
            \<and> radio_choice w = None
          \<longrightarrow> main E csv_path src ss w = (Stopped, ss, [WarningShown choose_warning]))
       \<and> (strip (qtype (questions ! nat (page ss - 1))) = subjective
            \<and> strip (text_answer w) = []
          \<longrightarrow> main E csv_path src ss w = (Stopped, ss, [WarningShown enter_warning]))"
  using assms
  by (simp add: main_question_page question_page_def subjective_not_multiple_choice)

text \<open>Claim C7 on the sample file: nothing selected on page 2, two spaces typed on page 1.\<close>

theorem invalid_submission_changes_nothing_witness:
  "load_questions ascii_env (ascii ''mz_test.csv'') (Content sample_csv)
     = Returned [sample_q1, sample_q2]
   \<and> strip (qtype ([sample_q1, sample_q2] ! nat (2 - 1))) = multiple_choice
   \<and> strip (qtype ([sample_q1, sample_q2] ! nat (1 - 1))) = subjective
   \<and> main ascii_env (ascii ''mz_test.csv'') (Content sample_csv)
        (initial_session\<lparr>page := 2\<rparr>) (no_input\<lparr>submitted := True\<rparr>)
      = (Stopped, initial_session\<lparr>page := 2\<rparr>, [WarningShown choose_warning])
   \<and> main ascii_env (ascii ''mz_test.csv'') (Content sample_csv)
        (initial_session\<lparr>page := 1\<rparr>) (no_input\<lparr>submitted := True, text_answer := ascii ''  ''\<rparr>)
      = (Stopped, initial_session\<lparr>page := 1\<rparr>, [WarningShown enter_warning])"
  using invalid_submission_changes_nothing [of ascii_env "ascii ''mz_test.csv''"
      "Content sample_csv" "[sample_q1, sample_q2]" "initial_session\<lparr>page := 2\<rparr>"
      "no_input\<lparr>submitted := True\<rparr>"]
    invalid_submission_changes_nothing [of ascii_env "ascii ''mz_test.csv''"
      "Content sample_csv" "[sample_q1, sample_q2]" "initial_session\<lparr>page := 1\<rparr>"
      "no_input\<lparr>submitted := True, text_answer := ascii ''  ''\<rparr>"]
  by (simp add: load_sample initial_session_def no_input_def sample_q1_def sample_q2_def
      strip_def py_isspace_def multiple_choice_def subjective_def ascii_def)

text \<open>
  Claim C8. On a question page a submission that is not rejected stores the trimmed
  answer under the id of the question of that page and adds exactly 1 to \<open>page\<close>, so
  that the last question leads to the result page. The stored value is the submitted one
  without the whitespace before and after it: the submitted value is whitespace, then the
  stored value, then whitespace, and the stored value neither begins nor ends with
  whitespace. In any run at all, \<open>page\<close> stays, or grows by exactly 1 (the start button
  on page 0, or a submission on a question page), or is reset to 0 by the restart
  button; it never goes down otherwise.
\<close>

theorem valid_submission_advances_by_one:
  "(load_questions E csv_path src = Returned questions
      \<and> 1 \<le> page ss \<and> page ss \<le> int (length questions) \<and> submitted w
      \<and> \<not> rejected (questions ! nat (page ss - 1)) w
     \<longrightarrow> main E csv_path src ss w =
          (Rerun,
           ss\<lparr>answers := (answers ss)(qid (questions ! nat (page ss - 1)) \<mapsto>
                  strip (submitted_value (questions ! nat (page ss - 1)) w)),
              page := page ss + 1\<rparr>, []))
   \<and> (\<exists>pre post.
         submitted_value (questions ! nat (page ss - 1)) w
           = pre @ strip (submitted_value (questions ! nat (page ss - 1)) w) @ post
         \<and> list_all py_isspace pre \<and> list_all py_isspace post)
   \<and> (strip (submitted_value (questions ! nat (page ss - 1)) w) \<noteq> []
     \<longrightarrow> \<not> py_isspace (hd (strip (submitted_value (questions ! nat (page ss - 1)) w)))
         \<and> \<not> py_isspace (last (strip (submitted_value (questions ! nat (page ss - 1)) w))))
   \<and> (main E csv_path src ss w = (c, ss', ev)
     \<longrightarrow> page ss' = page ss
         \<or> (page ss' = page ss + 1 \<and> c = Rerun
              \<and> (page ss = 0 \<and> start_clicked w \<or> 1 \<le> page ss \<and> submitted w))
         \<or> (page ss' = 0 \<and> 0 < page ss \<and> c = Rerun \<and> restart_clicked w))"
proof (intro conjI; (rule impI)?)
  assume a: "load_questions E csv_path src = Returned questions
      \<and> 1 \<le> page ss \<and> page ss \<le> int (length questions) \<and> submitted w
      \<and> \<not> rejected (questions ! nat (page ss - 1)) w"
  then have "main E csv_path src ss w = question_page (questions ! nat (page ss - 1)) ss w"
    by (simp add: main_question_page)
  also have "\<dots> = (Rerun,
           ss\<lparr>answers := (answers ss)(qid (questions ! nat (page ss - 1)) \<mapsto>
                  strip (submitted_value (questions ! nat (page ss - 1)) w)),
              page := page ss + 1\<rparr>, [])"
    using a subjective_not_multiple_choice
    by (auto simp: question_page_def rejected_def submitted_value_def)
  finally show "main E csv_path src ss w = (Rerun,
           ss\<lparr>answers := (answers ss)(qid (questions ! nat (page ss - 1)) \<mapsto>
                  strip (submitted_value (questions ! nat (page ss - 1)) w)),
              page := page ss + 1\<rparr>, [])" .
next
  let ?v = "submitted_value (questions ! nat (page ss - 1)) w"
  let ?m = "dropWhile py_isspace ?v"
  let ?b = "takeWhile py_isspace (rev ?m)"
  have "rev ?m = ?b @ dropWhile py_isspace (rev ?m)" by simp
  then have "?m = rev (dropWhile py_isspace (rev ?m)) @ rev ?b"
    by (metis rev_append rev_rev_ident)
  then have m: "?m = strip ?v @ rev ?b" by (simp add: strip_def)
  have "?v = takeWhile py_isspace ?v @ ?m" by simp
  with m have v: "?v = takeWhile py_isspace ?v @ strip ?v @ rev ?b" by simp
  have "list_all py_isspace (takeWhile py_isspace ?v)"
    by (simp add: list_all_iff) (meson set_takeWhileD)
  moreover have "list_all py_isspace (rev ?b)"
    by (simp add: list_all_iff) (meson set_takeWhileD)
  ultimately show "\<exists>pre post. ?v = pre @ strip ?v @ post
         \<and> list_all py_isspace pre \<and> list_all py_isspace post"
    using v by blast
next
  let ?v = "submitted_value (questions ! nat (page ss - 1)) w"
  let ?m = "dropWhile py_isspace ?v"
  let ?d = "dropWhile py_isspace (rev ?m)"
  assume n: "strip ?v \<noteq> []"
  then have d: "?d \<noteq> []" by (simp add: strip_def)
  then have "\<not> py_isspace (hd ?d)" by (rule hd_dropWhile)
  moreover have "last (strip ?v) = hd ?d" using d by (simp add: strip_def last_rev)
  ultimately have l: "\<not> py_isspace (last (strip ?v))" by simp
  have "?m \<noteq> []"
  proof
    assume e: "?m = []"
    have "?d = []" unfolding e by simp
    with d show False by blast
  qed
  then have hm: "\<not> py_isspace (hd ?m)" by (rule hd_dropWhile)
  have "rev ?m = takeWhile py_isspace (rev ?m) @ ?d" by simp
  then have "?m = strip ?v @ rev (takeWhile py_isspace (rev ?m))"
    unfolding strip_def by (metis rev_append rev_rev_ident)
  then have "hd ?m = hd (strip ?v)" using n by (metis hd_append2)
  with hm l show "\<not> py_isspace (hd (strip ?v)) \<and> \<not> py_isspace (last (strip ?v))"
    by simp
next
  assume m: "main E csv_path src ss w = (c, ss', ev)"
  show "page ss' = page ss
         \<or> (page ss' = page ss + 1 \<and> c = Rerun
              \<and> (page ss = 0 \<and> start_clicked w \<or> 1 \<le> page ss \<and> submitted w))
         \<or> (page ss' = 0 \<and> 0 < page ss \<and> c = Rerun \<and> restart_clicked w)"
  proof (cases "load_questions E csv_path src")
    case (Returned questions)
    consider "page ss = 0" | "1 \<le> page ss \<and> page ss \<le> int (length questions)"
      | "int (length questions) < page ss" | "page ss < 0"
      by linarith
    then show ?thesis
    proof cases
      case 1
      with m Returned have "start_page ss w = (c, ss', ev)" by (simp add: main_def)
      from start_page_page [OF this] 1 show ?thesis by auto
    next
      case 2
      with m Returned have "question_page (questions ! nat (page ss - 1)) ss w = (c, ss', ev)"
        by (simp add: main_question_page)
      from question_page_page [OF this] 2 show ?thesis by auto
    next
      case 3
      with m Returned have "result_page E questions ss w = (c, ss', ev)"
        by (simp add: main_result_page)
      from result_page_page [OF this] 3 show ?thesis by auto
    next
      case 4
      with m Returned show ?thesis by (auto simp: main_def)
    qed
  next
    case (Halted x)
    with m show ?thesis by (auto simp: main_def)
  next
    case (Raised e)
    with m show ?thesis by (auto simp: main_def)
  qed
qed

text \<open>
  Claim C8 on the sample file: typing \<open>"  yolo "\<close> on page 1, which is stored as \<open>"yolo"\<close>,
  and choosing \<open>b\<close> on page 2, the last question.
\<close>

theorem valid_submission_advances_by_one_witness:
  "load_questions ascii_env (ascii ''mz_test.csv'') (Content sample_csv)
     = Returned [sample_q1, sample_q2]
   \<and> \<not> rejected ([sample_q1, sample_q2] ! nat (1 - 1))
          (no_input\<lparr>submitted := True, text_answer := ascii ''  yolo ''\<rparr>)
   \<and> strip (submitted_value ([sample_q1, sample_q2] ! nat (1 - 1))
          (no_input\<lparr>submitted := True, text_answer := ascii ''  yolo ''\<rparr>)) = ascii ''yolo''
   \<and> main ascii_env (ascii ''mz_test.csv'') (Content sample_csv)
        (initial_session\<lparr>page := 1\<rparr>)
        (no_input\<lparr>submitted := True, text_answer := ascii ''  yolo ''\<rparr>)
      = (Rerun, initial_session\<lparr>answers := [ascii ''1'' \<mapsto> ascii ''yolo''], page := 2\<rparr>, [])
   \<and> \<not> rejected ([sample_q1, sample_q2] ! nat (2 - 1))
          (no_input\<lparr>submitted := True, radio_choice := Some (ascii ''b'')\<rparr>)
   \<and> main ascii_env (ascii ''mz_test.csv'') (Content sample_csv)
        (initial_session\<lparr>page := 2\<rparr>)
        (no_input\<lparr>submitted := True, radio_choice := Some (ascii ''b'')\<rparr>)
      = (Rerun, initial_session\<lparr>answers := [ascii ''2'' \<mapsto> ascii ''b''], page := 3\<rparr>, [])"
proof -
  let ?p = "ascii ''mz_test.csv''"
  let ?qs = "[sample_q1, sample_q2]"
  let ?w1 = "no_input\<lparr>submitted := True, text_answer := ascii ''  yolo ''\<rparr>"
  let ?w2 = "no_input\<lparr>submitted := True, radio_choice := Some (ascii ''b'')\<rparr>"
  have l: "load_questions ascii_env ?p (Content sample_csv) = Returned ?qs"
    by (rule load_sample)
  have n1: "\<not> rejected (?qs ! nat (1 - 1)) ?w1"
    by (simp add: rejected_def no_input_def sample_q1_def strip_def py_isspace_def
        multiple_choice_def subjective_def ascii_def)
  have v1: "strip (submitted_value (?qs ! nat (1 - 1)) ?w1) = ascii ''yolo''"
    by (simp add: submitted_value_def no_input_def sample_q1_def strip_def py_isspace_def
        multiple_choice_def subjective_def ascii_def)
  have n2: "\<not> rejected (?qs ! nat (2 - 1)) ?w2"
    by (simp add: rejected_def no_input_def sample_q2_def strip_def py_isspace_def
        multiple_choice_def subjective_def ascii_def)
  have v2: "strip (submitted_value (?qs ! nat (2 - 1)) ?w2) = ascii ''b''"
    by (simp add: submitted_value_def no_input_def sample_q2_def strip_def py_isspace_def
        multiple_choice_def subjective_def ascii_def)
  have h1: "load_questions ascii_env ?p (Content sample_csv) = Returned ?qs
      \<and> 1 \<le> page (initial_session\<lparr>page := 1\<rparr>)
      \<and> page (initial_session\<lparr>page := 1\<rparr>) \<le> int (length ?qs) \<and> submitted ?w1
      \<and> \<not> rejected (?qs ! nat (page (initial_session\<lparr>page := 1\<rparr>) - 1)) ?w1"
    using l n1 by (simp add: initial_session_def no_input_def)
  have h2: "load_questions ascii_env ?p (Content sample_csv) = Returned ?qs
      \<and> 1 \<le> page (initial_session\<lparr>page := 2\<rparr>)
      \<and> page (initial_session\<lparr>page := 2\<rparr>) \<le> int (length ?qs) \<and> submitted ?w2
      \<and> \<not> rejected (?qs ! nat (page (initial_session\<lparr>page := 2\<rparr>) - 1)) ?w2"
    using l n2 by (simp add: initial_session_def no_input_def)
  have m1: "main ascii_env ?p (Content sample_csv) (initial_session\<lparr>page := 1\<rparr>) ?w1
      = (Rerun, initial_session\<lparr>answers := [ascii ''1'' \<mapsto> ascii ''yolo''], page := 2\<rparr>, [])"
    using valid_submission_advances_by_one [THEN conjunct1, THEN mp, OF h1] v1
    by (simp add: initial_session_def sample_q1_def)
  have m2: "main ascii_env ?p (Content sample_csv) (initial_session\<lparr>page := 2\<rparr>) ?w2
      = (Rerun, initial_session\<lparr>answers := [ascii ''2'' \<mapsto> ascii ''b''], page := 3\<rparr>, [])"
    using valid_submission_advances_by_one [THEN conjunct1, THEN mp, OF h2] v2
    by (simp add: initial_session_def sample_q2_def)
  from l n1 v1 m1 n2 m2 show ?thesis by (intro conjI)
qed

text \<open>
  Claim C6. When the result page is shown (the run does not crash) and the restart
  button is pressed, the session is the old one with \<open>page\<close> 0 and \<open>answers\<close> empty:
  \<open>username\<close> is kept. The question list is no part of the session; each run reads
  it from the file, which \<open>main\<close> does not write.
\<close>

theorem restart_resets_page_and_answers:
  assumes "load_questions E csv_path src = Returned questions"
    and "int (length questions) < page ss"
    and "restart_clicked w"
    and "main E csv_path src ss w = (c, ss', ev)"
    and "c \<notin> range Crashed"
  shows "c = Rerun \<and> ss' = ss\<lparr>page := 0, answers := Map.empty\<rparr>
    \<and> username ss' = username ss \<and> page ss' = 0 \<and> answers ss' = Map.empty"
proof -
  have "result_page E questions ss w = (c, ss', ev)"
    using assms(1,2,4) by (simp add: main_result_page)
  with assms(3,5) show ?thesis
    by (auto simp: result_page_def split: sum.splits prod.splits)
qed

text \<open>Claim C6 on the sample file, from the result page with one answer recorded.\<close>

theorem restart_resets_page_and_answers_witness:
  "load_questions ascii_env (ascii ''mz_test.csv'') (Content sample_csv)
     = Returned [sample_q1, sample_q2]
   \<and> int (length [sample_q1, sample_q2]) < page \<lparr>page = 3, answers = [ascii ''1'' \<mapsto> ascii ''yolo''], username = ascii ''Kim''\<rparr>
   \<and> restart_clicked (no_input\<lparr>restart_clicked := True\<rparr>)
   \<and> fst (main ascii_env (ascii ''mz_test.csv'') (Content sample_csv)
        \<lparr>page = 3, answers = [ascii ''1'' \<mapsto> ascii ''yolo''], username = ascii ''Kim''\<rparr>
        (no_input\<lparr>restart_clicked := True\<rparr>)) = Rerun
   \<and> fst (snd (main ascii_env (ascii ''mz_test.csv'') (Content sample_csv)
        \<lparr>page = 3, answers = [ascii ''1'' \<mapsto> ascii ''yolo''], username = ascii ''Kim''\<rparr>
        (no_input\<lparr>restart_clicked := True\<rparr>)))
      = \<lparr>page = 0, answers = Map.empty, username = ascii ''Kim''\<rparr>"
proof -
  let ?ss = "\<lparr>page = 3, answers = [ascii ''1'' \<mapsto> ascii ''yolo''], username = ascii ''Kim''\<rparr>"
  let ?w = "no_input\<lparr>restart_clicked := True\<rparr>"
  let ?m = "main ascii_env (ascii ''mz_test.csv'') (Content sample_csv) ?ss ?w"
  have l: "load_questions ascii_env (ascii ''mz_test.csv'') (Content sample_csv)
     = Returned [sample_q1, sample_q2]"
    by (rule load_sample)
  have p: "int (length [sample_q1, sample_q2]) < page ?ss" by simp
  have r: "restart_clicked ?w" by simp
  have m: "?m = (fst ?m, fst (snd ?m), snd (snd ?m))" by simp
  have "?m = result_page ascii_env [sample_q1, sample_q2] ?ss ?w"
    using l p by (rule main_result_page)
  moreover obtain n rows
    where "grade_all ascii_env (answers ?ss) [sample_q1, sample_q2] 0 [] = Inr (n, rows)"
  proof (cases "grade_all ascii_env (answers ?ss) [sample_q1, sample_q2] 0 []")
    case (Inl e)
    from grade_all_Inl [OF this] show ?thesis
      by (simp add: sample_q1_def sample_q2_def py_int_1 py_int_2)
  next
    case (Inr r)
    with that show ?thesis by (cases r) simp
  qed
  ultimately have "?m = (Rerun, ?ss\<lparr>page := 0, answers := Map.empty\<rparr>,
      [ResultShown n (result_tier n) rows])"
    by (simp add: result_page_def no_input_def)
  then have c: "fst ?m \<notin> range Crashed"
    by (simp only: fst_conv) blast
  from restart_resets_page_and_answers [OF l p r m c] l p r show ?thesis by simp
qed

text \<open>
  Claim C3, as amended. What the loader returns is the items of the file sorted by
  \<open>safe_int\<close> of their ids: the same items, in non-decreasing order of that key, items of
  equal key in their order in the file. So the items whose id is no integer keep their
  order in the file, and none of them comes before an item with an integer id below
  \<open>10 ** 9\<close>: whatever follows one of them has an id that is no integer either, or an
  integer id of \<open>10 ** 9\<close> or more.
\<close>

theorem loader_sorts_stably_by_id:
  assumes "load_questions E csv_path src = Returned out"
  shows "\<exists>text items. src = Content text \<and> read_items (usable_lines text) = Inr items
     \<and> mset out = mset items
     \<and> sorted (map (\<lambda>q. safe_int E (qid q)) out)
     \<and> (\<forall>k. filter (\<lambda>q. safe_int E (qid q) = k) out
              = filter (\<lambda>q. safe_int E (qid q) = k) items)
     \<and> filter (\<lambda>q. py_int E (qid q) = None) out
          = filter (\<lambda>q. py_int E (qid q) = None) items
     \<and> (\<forall>i j. i < j \<and> j < length out \<and> py_int E (qid (out ! i)) = None
            \<longrightarrow> py_int E (qid (out ! j)) = None
                \<or> (\<exists>n. py_int E (qid (out ! j)) = Some n \<and> 10 ^ 9 \<le> n))"
proof -
  let ?key = "\<lambda>q. safe_int E (qid q)"
  from load_questions_Returned [OF assms] obtain t items
    where src: "src = Content t" and items: "read_items (usable_lines t) = Inr items"
      and out: "out = sort_key ?key items"
    by blast
  have srt: "sorted (map ?key out)" by (simp add: out)
  have after: "py_int E (qid (out ! j)) = None
                \<or> (\<exists>n. py_int E (qid (out ! j)) = Some n \<and> 10 ^ 9 \<le> n)"
    if "i < j \<and> j < length out \<and> py_int E (qid (out ! i)) = None" for i j
  proof -
    from that have "map ?key out ! i \<le> map ?key out ! j"
      using srt by (simp add: sorted_iff_nth_mono_less del: nth_map)
    with that have "10 ^ 9 \<le> ?key (out ! j)"
      by (simp add: safe_int_unparsable)
    then show ?thesis by (cases "py_int E (qid (out ! j))") (simp_all add: safe_int_def)
  qed
  have ms: "mset out = mset items" by (simp add: out)
  have st: "\<forall>k. filter (\<lambda>q. ?key q = k) out = filter (\<lambda>q. ?key q = k) items"
    by (simp add: out sort_key_stable)
  have un: "filter (\<lambda>q. py_int E (qid q) = None) out
          = filter (\<lambda>q. py_int E (qid q) = None) items"
    unfolding out by (rule sort_key_keeps_unparsable)
  from src items ms srt st un after show ?thesis by blast
qed

text \<open>
  Claim C3 as it is written fails: an item whose id is no integer is not always after
  every item with an integer id. Of the two rows \<open>x\<close> and \<open>2000000000\<close> the loader
  returns \<open>x\<close> first, since its key \<open>10 ** 9\<close> is the smaller one.
\<close>

theorem unparsable_id_before_valid_id:
  "load_questions ascii_env (ascii ''mz_test.csv'') (Content bigid_csv)
     = Returned [bigid_x, bigid_big]
   \<and> py_int ascii_env (qid bigid_x) = None
   \<and> py_int ascii_env (qid bigid_big) = Some 2000000000"
  by (simp add: load_bigid) (simp add: bigid_x_def bigid_big_def py_int_x py_int_big)

text \<open>Claim C3, as amended, on the same two rows.\<close>

theorem loader_sorts_stably_by_id_witness:
  "load_questions ascii_env (ascii ''mz_test.csv'') (Content bigid_csv)
     = Returned [bigid_x, bigid_big]
   \<and> sorted (map (\<lambda>q. safe_int ascii_env (qid q)) [bigid_x, bigid_big])
   \<and> filter (\<lambda>q. py_int ascii_env (qid q) = None) [bigid_x, bigid_big] = [bigid_x]"
  using loader_sorts_stably_by_id [of ascii_env "ascii ''mz_test.csv''" "Content bigid_csv"
      "[bigid_x, bigid_big]"]
  by (simp add: load_bigid) (simp add: items_bigid bigid_x_def bigid_big_def py_int_x py_int_big)

text \<open>
  Claim C9. A row may have fewer cells than the header has field names, and the header
  may lack columns: nothing fails. With field names that stay distinct when cleaned, the
  value loaded for column \<open>i\<close> is the trimmed cell \<open>i\<close> of the row, or the empty string
  when the row ends before it; a column that the header does not have loads as the empty
  string. In general \<open>get\<close> gives the empty string for an absent key or a \<open>None\<close> cell and
  the trimmed cell otherwise, and \<open>make_item\<close> fills the six fields from the columns of
  their names, \<open>choices\<close> being the triple of \<open>choice1\<close>, \<open>choice2\<close>, \<open>choice3\<close>.
  Whenever the reader delivers a header and rows, of whatever lengths, \<open>load_questions\<close>
  returns one item for each row that is not empty.
\<close>

theorem missing_cells_load_as_empty:
  "(distinct (map clean_name fieldnames) \<and> i < length fieldnames \<longrightarrow>
      get (field_map_of fieldnames) (dict_row fieldnames row) (clean_name (fieldnames ! i))
        = (if i < length row then strip (row ! i) else []))
   \<and> (key \<notin> set (map clean_name fieldnames) \<and> key \<notin> set fieldnames \<longrightarrow>
        get (field_map_of fieldnames) (dict_row fieldnames row) key = [])
   \<and> (d (case fm key of Some orig \<Rightarrow> orig | None \<Rightarrow> key) = None
        \<or> d (case fm key of Some orig \<Rightarrow> orig | None \<Rightarrow> key) = Some None
      \<longrightarrow> get fm d key = [])
   \<and> (d (case fm key of Some orig \<Rightarrow> orig | None \<Rightarrow> key) = Some (Some v)
      \<longrightarrow> get fm d key = strip v)
   \<and> qid (make_item fm d) = get fm d (ascii ''id'')
   \<and> question (make_item fm d) = get fm d (ascii ''question'')
   \<and> qtype (make_item fm d) = get fm d (ascii ''type'')
   \<and> image (make_item fm d) = get fm d (ascii ''image'')
   \<and> choices (make_item fm d)
        = [get fm d (ascii ''choice1''), get fm d (ascii ''choice2''), get fm d (ascii ''choice3'')]
   \<and> answer (make_item fm d) = get fm d (ascii ''answer'')
   \<and> (csv_reader (stringio_lines (join_nl (usable_lines body))) = Inr (fieldnames # rows) \<longrightarrow>
        (\<exists>out. load_questions E csv_path (Content body) = Returned out
           \<and> mset out = mset (map (\<lambda>r. make_item (field_map_of fieldnames) (dict_row fieldnames r))
                               (filter (\<lambda>r. r \<noteq> []) rows))))"
proof -
  have a: "get (field_map_of fieldnames) (dict_row fieldnames row) (clean_name (fieldnames ! i))
        = (if i < length row then strip (row ! i) else [])"
    if "distinct (map clean_name fieldnames) \<and> i < length fieldnames"
    using that get_column by blast
  have b: "get (field_map_of fieldnames) (dict_row fieldnames row) key = []"
    if "key \<notin> set (map clean_name fieldnames) \<and> key \<notin> set fieldnames"
    using that get_no_column by blast
  have c: "get fm d key = []"
    if "d (case fm key of Some orig \<Rightarrow> orig | None \<Rightarrow> key) = None
        \<or> d (case fm key of Some orig \<Rightarrow> orig | None \<Rightarrow> key) = Some None"
    using that by (auto simp: get_def)
  have e: "get fm d key = strip v"
    if "d (case fm key of Some orig \<Rightarrow> orig | None \<Rightarrow> key) = Some (Some v)"
    using that by (simp add: get_def)
  have f: "\<exists>out. load_questions E csv_path (Content body) = Returned out
           \<and> mset out = mset (map (\<lambda>r. make_item (field_map_of fieldnames) (dict_row fieldnames r))
                               (filter (\<lambda>r. r \<noteq> []) rows))"
    if r: "csv_reader (stringio_lines (join_nl (usable_lines body))) = Inr (fieldnames # rows)"
  proof -
    from r have "usable_lines body \<noteq> []" by (rule rows_need_lines)
    then show ?thesis
      by (simp add: load_questions_def read_items_rows [OF r])
  qed
  have g: "qid (make_item fm d) = get fm d (ascii ''id'')
   \<and> question (make_item fm d) = get fm d (ascii ''question'')
   \<and> qtype (make_item fm d) = get fm d (ascii ''type'')
   \<and> image (make_item fm d) = get fm d (ascii ''image'')
   \<and> choices (make_item fm d)
        = [get fm d (ascii ''choice1''), get fm d (ascii ''choice2''), get fm d (ascii ''choice3'')]
   \<and> answer (make_item fm d) = get fm d (ascii ''answer'')"
    by (simp add: make_item_def)
  from a b c e f g show ?thesis by blast
qed

text \<open>Claim C9 on the header \<open>id,answer\<close> with the short row \<open>" 7 "\<close>, and on the sample file.\<close>

theorem missing_cells_load_as_empty_witness:
  "distinct (map clean_name [ascii ''id'', ascii ''answer''])
   \<and> get (field_map_of [ascii ''id'', ascii ''answer''])
        (dict_row [ascii ''id'', ascii ''answer''] [ascii '' 7 '']) (ascii ''id'') = ascii ''7''
   \<and> get (field_map_of [ascii ''id'', ascii ''answer''])
        (dict_row [ascii ''id'', ascii ''answer''] [ascii '' 7 '']) (ascii ''answer'') = []
   \<and> get (field_map_of [ascii ''id'', ascii ''answer''])
        (dict_row [ascii ''id'', ascii ''answer''] [ascii '' 7 '']) (ascii ''image'') = []
   \<and> (\<exists>out. load_questions ascii_env (ascii ''mz_test.csv'') (Content sample_csv) = Returned out
         \<and> length out = 2)"
proof -
  let ?h = "[ascii ''id'', ascii ''answer'']" and ?r = "[ascii '' 7 '']"
  let ?hs = "[ascii ''id'', ascii ''type'', ascii ''choice1'', ascii ''choice2'', ascii ''answer'']"
  let ?rs = "[[ascii ''2'', multiple_choice, ascii ''a'', ascii ''b'', ascii ''b''],
        [ascii ''1'', subjective, [], [], ascii ''Yolo'']]"
  have cn: "map clean_name ?h = ?h" by (simp add: clean_name_def ascii_def)
  have d: "distinct (map clean_name ?h)" unfolding cn by (simp add: ascii_def)
  have k: "ascii ''image'' \<notin> set (map clean_name ?h) \<and> ascii ''image'' \<notin> set ?h"
    unfolding cn by (simp add: ascii_def)
  note t0 = missing_cells_load_as_empty [of ?h 0 ?r "ascii ''image''" Map.empty Map.empty
      "[]" sample_csv ?rs ascii_env "ascii ''mz_test.csv''"]
  note t1 = missing_cells_load_as_empty [of ?h 1 ?r "ascii ''image''" Map.empty Map.empty
      "[]" sample_csv ?rs ascii_env "ascii ''mz_test.csv''"]
  note t2 = missing_cells_load_as_empty [of ?hs 0 ?r "ascii ''image''" Map.empty Map.empty
      "[]" sample_csv ?rs ascii_env "ascii ''mz_test.csv''"]
  have g0: "get (field_map_of ?h) (dict_row ?h ?r) (ascii ''id'') = ascii ''7''"
    using t0 d by (simp add: clean_name_def) (simp add: ascii_def strip_def py_isspace_def)
  have g1: "get (field_map_of ?h) (dict_row ?h ?r) (ascii ''answer'') = []"
    using t1 d by (simp add: clean_name_def) (simp add: ascii_def)
  have g2: "get (field_map_of ?h) (dict_row ?h ?r) (ascii ''image'') = []"
    using t0 k by blast
  have "\<exists>out. load_questions ascii_env (ascii ''mz_test.csv'') (Content sample_csv) = Returned out
           \<and> mset out = mset (map (\<lambda>r. make_item (field_map_of ?hs) (dict_row ?hs r))
                               (filter (\<lambda>r. r \<noteq> []) ?rs))"
    using t2 rows_sample by blast
  then obtain out where o: "load_questions ascii_env (ascii ''mz_test.csv'') (Content sample_csv) = Returned out"
    and m: "mset out = mset (map (\<lambda>r. make_item (field_map_of ?hs) (dict_row ?hs r))
                               (filter (\<lambda>r. r \<noteq> []) ?rs))"
    by blast
  from m have "size (mset out) = 2" by (simp add: ascii_def)
  then have "length out = 2" by simp
  with o d g0 g1 g2 show ?thesis by blast
qed

text \<open>
  Claim C4 fails on the code. The file with the id \<open>x\<close> loads, \<open>safe_int\<close> standing in for
  the id while sorting, and the start page and both question pages work; but the result
  page calls \<open>int\<close> on the id without a guard (line 290), and the \<open>ValueError\<close> leaves
  \<open>main\<close>: the run crashes before anything of the result is shown.
\<close>

theorem result_page_crashes_on_unparsable_id:
  "load_questions ascii_env (ascii ''mz_test.csv'') (Content bigid_csv)
     = Returned [bigid_x, bigid_big]
   \<and> main ascii_env (ascii ''mz_test.csv'') (Content bigid_csv) initial_session
        (no_input\<lparr>start_clicked := True\<rparr>)
      = (Rerun, initial_session\<lparr>page := 1\<rparr>, [])
   \<and> main ascii_env (ascii ''mz_test.csv'') (Content bigid_csv) (initial_session\<lparr>page := 1\<rparr>)
        (no_input\<lparr>text_answer := ascii ''a'', submitted := True\<rparr>)
      = (Rerun, initial_session\<lparr>page := 2, answers := [ascii ''x'' \<mapsto> ascii ''a'']\<rparr>, [])
   \<and> main ascii_env (ascii ''mz_test.csv'') (Content bigid_csv)
        (initial_session\<lparr>page := 2, answers := [ascii ''x'' \<mapsto> ascii ''a'']\<rparr>)
        (no_input\<lparr>text_answer := ascii ''b'', submitted := True\<rparr>)
      = (Rerun, bigid_session, [])
   \<and> main ascii_env (ascii ''mz_test.csv'') (Content bigid_csv) bigid_session no_input
      = (Crashed ValueError, bigid_session, [])"
proof -
  have g: "grade_all ascii_env (answers bigid_session) [bigid_x, bigid_big] 0 [] = Inl ValueError"
    by (rule grade_all_unparsable) (simp add: bigid_x_def py_int_x)
  have "main ascii_env (ascii ''mz_test.csv'') (Content bigid_csv) bigid_session no_input
      = (Crashed ValueError, bigid_session, [])"
    by (simp add: main_def load_bigid bigid_session_def result_page_def g [unfolded bigid_session_def, simplified])
  then show ?thesis
    by (simp add: load_bigid)
      (simp add: main_def load_bigid initial_session_def no_input_def start_page_def
        question_page_def bigid_session_def bigid_x_def bigid_big_def strip_def py_isspace_def ascii_def
        multiple_choice_def subjective_def)
qed




end
